theory Spec2Isabelle
  imports Complex_Main "HOL-Library.Log_Nat" "HOL-Library.Word"
begin

section \<open>Binary floating-point values\<close>

text \<open>
  The program computes with \<^verbatim>\<open>float\<close> (IEEE 754 binary32) and \<^verbatim>\<open>double\<close>
  (binary64).  A value of either format is a dyadic number \<open>m * 2 ^ e\<close>, an
  infinity or a NaN.  The sign of a zero is not represented: the modelled code
  never divides by a variable that can be zero, and \<^verbatim>\<open>==\<close>, \<^verbatim>\<open><\<close> and \<^verbatim>\<open><=\<close>
  do not see it.
\<close>

datatype fp = Fin int int | PInf | NInf | NaN

text \<open>The real number a finite value stands for.\<close>

definition dyadic :: "int \<Rightarrow> int \<Rightarrow> real" where
  "dyadic m e = of_int m * 2 powi e"

fun is_finite :: "fp \<Rightarrow> bool" where
  "is_finite (Fin m e) = True"
| "is_finite v = False"

subsection \<open>Rounding to nearest, ties to even\<close>

text \<open>
  A format is given by its precision \<open>p\<close> (24 or 53 bits), the exponent \<open>emin\<close>
  of its least subnormal (\<open>-149\<close>, \<open>-1074\<close>) and the exponent \<open>emax\<close> with
  \<open>2 ^ emax\<close> the least power of two that overflows (128, 1024).
  \<open>rnd p emin emax m e\<close> rounds the exact value \<open>m * 2 ^ e\<close> into the format:
  the result is a multiple of \<open>2 ^ t\<close>, where \<open>t\<close> keeps at most \<open>p\<close> bits of
  the mantissa and is at least \<open>emin\<close>.
\<close>

definition fin_or_inf :: "int \<Rightarrow> int \<Rightarrow> int \<Rightarrow> fp" where
  "fin_or_inf emax n t =
     (if emax < bitlen \<bar>n\<bar> + t then (if 0 < n then PInf else NInf) else Fin n t)"

definition rnd_half_even :: "int \<Rightarrow> int \<Rightarrow> int \<Rightarrow> int" where
  "rnd_half_even q twice_rest unit =
     (if twice_rest < unit then q
      else if unit < twice_rest then q + 1
      else if even q then q else q + 1)"

definition rnd_at :: "int \<Rightarrow> int \<Rightarrow> int \<Rightarrow> int \<Rightarrow> fp" where
  "rnd_at emax m e t =
     (if t \<le> e then fin_or_inf emax m e
      else fin_or_inf emax
             (rnd_half_even (m div 2 ^ nat (t - e)) (2 * (m mod 2 ^ nat (t - e)))
                (2 ^ nat (t - e))) t)"

definition rnd :: "int \<Rightarrow> int \<Rightarrow> int \<Rightarrow> int \<Rightarrow> int \<Rightarrow> fp" where
  "rnd p emin emax m e = rnd_at emax m e (max (e + bitlen \<bar>m\<bar> - p) emin)"

text \<open>
  The quotient \<open>(a / b) * 2 ^ e\<close> for \<open>b > 0\<close>: enough quotient bits are
  computed that the rounding position lies above the last one, which records
  whether anything was cut off.
\<close>

definition sticky :: "int \<Rightarrow> int \<Rightarrow> int" where
  "sticky x b = 2 * (x div b) + (if x mod b = 0 then 0 else 1)"

definition rnd_quot :: "int \<Rightarrow> int \<Rightarrow> int \<Rightarrow> int \<Rightarrow> int \<Rightarrow> int \<Rightarrow> fp" where
  "rnd_quot p emin emax a b e =
     rnd p emin emax
       (sgn a * sticky (\<bar>a\<bar> * 2 ^ nat (p + 2 + bitlen b)) b)
       (e - (p + 2 + bitlen b) - 1)"

text \<open>The bit length of a numeral, by which \<open>bitlen\<close> of a literal is evaluated.\<close>

fun num_bits :: "num \<Rightarrow> int" where
  "num_bits num.One = 1"
| "num_bits (num.Bit0 k) = num_bits k + 1"
| "num_bits (num.Bit1 k) = num_bits k + 1"

definition round32 :: "int \<Rightarrow> int \<Rightarrow> fp" where
  "round32 = rnd 24 (- 149) 128"

definition round64 :: "int \<Rightarrow> int \<Rightarrow> fp" where
  "round64 = rnd 53 (- 1074) 1024"

definition quot32 :: "int \<Rightarrow> int \<Rightarrow> int \<Rightarrow> fp" where
  "quot32 = rnd_quot 24 (- 149) 128"

definition quot64 :: "int \<Rightarrow> int \<Rightarrow> int \<Rightarrow> fp" where
  "quot64 = rnd_quot 53 (- 1074) 1024"

subsection \<open>Arithmetic on values, for a given rounding\<close>

fun fp_neg :: "fp \<Rightarrow> fp" where
  "fp_neg (Fin m e) = Fin (- m) e"
| "fp_neg PInf = NInf"
| "fp_neg NInf = PInf"
| "fp_neg NaN = NaN"

fun fp_sgn :: "fp \<Rightarrow> int" where
  "fp_sgn (Fin m e) = sgn m"
| "fp_sgn PInf = 1"
| "fp_sgn NInf = - 1"
| "fp_sgn NaN = 0"

fun fp_add :: "(int \<Rightarrow> int \<Rightarrow> fp) \<Rightarrow> fp \<Rightarrow> fp \<Rightarrow> fp" where
  "fp_add rd (Fin m1 e1) (Fin m2 e2) =
     rd (m1 * 2 ^ nat (e1 - min e1 e2) + m2 * 2 ^ nat (e2 - min e1 e2)) (min e1 e2)"
| "fp_add rd NaN v = NaN"
| "fp_add rd v NaN = NaN"
| "fp_add rd PInf NInf = NaN"
| "fp_add rd NInf PInf = NaN"
| "fp_add rd PInf v = PInf"
| "fp_add rd NInf v = NInf"
| "fp_add rd v PInf = PInf"
| "fp_add rd v NInf = NInf"

definition fp_sub :: "(int \<Rightarrow> int \<Rightarrow> fp) \<Rightarrow> fp \<Rightarrow> fp \<Rightarrow> fp" where
  "fp_sub rd x y = fp_add rd x (fp_neg y)"

fun fp_mul :: "(int \<Rightarrow> int \<Rightarrow> fp) \<Rightarrow> fp \<Rightarrow> fp \<Rightarrow> fp" where
  "fp_mul rd (Fin m1 e1) (Fin m2 e2) = rd (m1 * m2) (e1 + e2)"
| "fp_mul rd NaN v = NaN"
| "fp_mul rd v NaN = NaN"
| "fp_mul rd x y =
     (if fp_sgn x * fp_sgn y = 0 then NaN
      else if 0 < fp_sgn x * fp_sgn y then PInf else NInf)"

text \<open>Division; a zero divisor counts as \<open>+0\<close>.\<close>

fun fp_div :: "(int \<Rightarrow> int \<Rightarrow> int \<Rightarrow> fp) \<Rightarrow> fp \<Rightarrow> fp \<Rightarrow> fp" where
  "fp_div qt (Fin m1 e1) (Fin m2 e2) =
     (if m2 = 0 then (if m1 = 0 then NaN else if 0 < m1 then PInf else NInf)
      else qt (sgn m2 * m1) \<bar>m2\<bar> (e1 - e2))"
| "fp_div qt NaN v = NaN"
| "fp_div qt v NaN = NaN"
| "fp_div qt (Fin m1 e1) v = Fin 0 0"
| "fp_div qt PInf (Fin m2 e2) = (if 0 \<le> m2 then PInf else NInf)"
| "fp_div qt NInf (Fin m2 e2) = (if 0 \<le> m2 then NInf else PInf)"
| "fp_div qt x y = NaN"

fun fp_cast :: "(int \<Rightarrow> int \<Rightarrow> fp) \<Rightarrow> fp \<Rightarrow> fp" where
  "fp_cast rd (Fin m e) = rd m e"
| "fp_cast rd v = v"

text \<open>The comparisons \<^verbatim>\<open><\<close>, \<^verbatim>\<open><=\<close> and \<^verbatim>\<open>==\<close>: false as soon as a NaN is involved.\<close>

fun fp_less :: "fp \<Rightarrow> fp \<Rightarrow> bool" where
  "fp_less (Fin m1 e1) (Fin m2 e2) =
     (m1 * 2 ^ nat (e1 - min e1 e2) < m2 * 2 ^ nat (e2 - min e1 e2))"
| "fp_less NaN v = False"
| "fp_less v NaN = False"
| "fp_less v NInf = False"
| "fp_less PInf v = False"
| "fp_less x y = True"

fun fp_eq :: "fp \<Rightarrow> fp \<Rightarrow> bool" where
  "fp_eq (Fin m1 e1) (Fin m2 e2) =
     (m1 * 2 ^ nat (e1 - min e1 e2) = m2 * 2 ^ nat (e2 - min e1 e2))"
| "fp_eq PInf PInf = True"
| "fp_eq NInf NInf = True"
| "fp_eq x y = False"

definition fp_le :: "fp \<Rightarrow> fp \<Rightarrow> bool" where
  "fp_le x y = (fp_less x y \<or> fp_eq x y)"


section \<open>The arithmetic the program runs on\<close>

text \<open>
  Every function of the program is written over an arithmetic: the operations
  of \<^verbatim>\<open>float\<close> (suffix 32) and of \<^verbatim>\<open>double\<close> (suffix 64), the conversions into
  the two formats and the comparisons.  A \<^verbatim>\<open>float\<close> converts to \<^verbatim>\<open>double\<close>
  without change, so that conversion is not written.  \<open>lit32 n d\<close> and
  \<open>lit64 n d\<close> are the literals of decimal value \<open>n / d\<close>.
\<close>

record 'f arith =
  add32 :: "'f \<Rightarrow> 'f \<Rightarrow> 'f"
  sub32 :: "'f \<Rightarrow> 'f \<Rightarrow> 'f"
  mul32 :: "'f \<Rightarrow> 'f \<Rightarrow> 'f"
  div32 :: "'f \<Rightarrow> 'f \<Rightarrow> 'f"
  add64 :: "'f \<Rightarrow> 'f \<Rightarrow> 'f"
  sub64 :: "'f \<Rightarrow> 'f \<Rightarrow> 'f"
  mul64 :: "'f \<Rightarrow> 'f \<Rightarrow> 'f"
  div64 :: "'f \<Rightarrow> 'f \<Rightarrow> 'f"
  to_float :: "'f \<Rightarrow> 'f"
  nat32 :: "nat \<Rightarrow> 'f"
  nat64 :: "nat \<Rightarrow> 'f"
  lit32 :: "int \<Rightarrow> int \<Rightarrow> 'f"
  lit64 :: "int \<Rightarrow> int \<Rightarrow> 'f"
  pi32 :: "'f"
  lt :: "'f \<Rightarrow> 'f \<Rightarrow> bool"
  le :: "'f \<Rightarrow> 'f \<Rightarrow> bool"
  eq :: "'f \<Rightarrow> 'f \<Rightarrow> bool"

text \<open>
  The arithmetic of the machine: IEEE 754, round to nearest, ties to even.
  \<open>pi32\<close> is \<^verbatim>\<open>std::numbers::pi_v<float>\<close>, the binary32 value nearest to
  \<open>\<pi>\<close>.
\<close>

definition ieee :: "fp arith" where
  "ieee = \<lparr>
     add32 = fp_add round32, sub32 = fp_sub round32,
     mul32 = fp_mul round32, div32 = fp_div quot32,
     add64 = fp_add round64, sub64 = fp_sub round64,
     mul64 = fp_mul round64, div64 = fp_div quot64,
     to_float = fp_cast round32,
     nat32 = (\<lambda>k. round32 (int k) 0), nat64 = (\<lambda>k. round64 (int k) 0),
     lit32 = (\<lambda>n d. quot32 n d 0), lit64 = (\<lambda>n d. quot64 n d 0),
     pi32 = Fin 13176795 (- 22),
     lt = fp_less, le = fp_le, eq = fp_eq \<rparr>"



section \<open>Data of the program\<close>

text \<open>
  Modelled from the spec: the structs \<^verbatim>\<open>ispc::color\<close>, \<^verbatim>\<open>ispc::float2\<close> and
  \<^verbatim>\<open>ispc::area\<close> are declared in the generated header \<^verbatim>\<open>newton_ispc.h\<close>, which
  is not among the sources.  \<^verbatim>\<open>main.cpp\<close> initialises a colour from four bytes and
  reads its members \<^verbatim>\<open>r\<close>, \<^verbatim>\<open>g\<close>, \<^verbatim>\<open>b\<close>; the fourth member is called \<open>a\<close> here.
  A \<^verbatim>\<open>float2\<close> is the array \<^verbatim>\<open>v[2]\<close>, a pair.  An area is initialised as
  \<^verbatim>\<open>{-2.0f, 2.0f, -2.0f, 2.0f}\<close>, in the order lower x, upper x, lower y, upper y
  of the spec.
\<close>

record color =
  r :: "8 word"
  g :: "8 word"
  b :: "8 word"
  a :: "8 word"

type_synonym 'f float2 = "'f \<times> 'f"

record 'f area =
  lower_x :: 'f
  upper_x :: 'f
  lower_y :: 'f
  upper_y :: 'f

text \<open>\<^verbatim>\<open>Color\<close> of raylib: four bytes, red, green, blue, alpha.\<close>

record Color =
  r :: "8 word"
  g :: "8 word"
  b :: "8 word"
  a :: "8 word"

text \<open>\<^verbatim>\<open>DARKGREEN\<close> of \<^verbatim>\<open>raylib.h\<close>.\<close>

definition DARKGREEN :: Color where
  "DARKGREEN = \<lparr>Color.r = 0, Color.g = 117, Color.b = 44, Color.a = 255\<rparr>"

text \<open>\<^verbatim>\<open>std::complex<float>\<close>: real and imaginary part.\<close>

type_synonym 'f cfloat = "'f \<times> 'f"

text \<open>
  The library functions the program calls and the sources do not hold:
  \<^verbatim>\<open>std::pow\<close> of a complex number and a \<^verbatim>\<open>float\<close>, the product and the quotient
  of two complex numbers, \<^verbatim>\<open>std::abs\<close>, and \<^verbatim>\<open>ColorBrightness\<close> of raylib.
  They are parameters of the model, and so is \<^verbatim>\<open>std::exp\<close>, which only the roots
  need.
\<close>

record 'f lib =
  cpow :: "'f cfloat \<Rightarrow> 'f \<Rightarrow> 'f cfloat"
  cmul :: "'f cfloat \<Rightarrow> 'f cfloat \<Rightarrow> 'f cfloat"
  cdiv :: "'f cfloat \<Rightarrow> 'f cfloat \<Rightarrow> 'f cfloat"
  cabs :: "'f cfloat \<Rightarrow> 'f"
  ColorBrightness :: "Color \<Rightarrow> 'f \<Rightarrow> Color"

text \<open>
  Undefined behaviour of C++ is a result of its own: an access outside a
  vector, and the overflow of an \<^verbatim>\<open>int\<close> counter.
\<close>

datatype error = OutOfBounds | SignedOverflow

definition INT_MAX :: nat where
  "INT_MAX = 2147483647"

text \<open>\<^verbatim>\<open>std::vector::resize\<close>: cut, or fill up with value-initialised elements.\<close>

definition resize :: "'a \<Rightarrow> nat \<Rightarrow> 'a list \<Rightarrow> 'a list" where
  "resize fill n xs = take n xs @ replicate (n - length xs) fill"

text \<open>\<^verbatim>\<open>struct image_data\<close>; \<^verbatim>\<open>width * height * 4\<close> is a product of \<^verbatim>\<open>unsigned\<close>.\<close>

record image_data =
  width :: "32 word"
  height :: "32 word"
  pixels :: "8 word list"

definition new_image_data :: "32 word \<Rightarrow> 32 word \<Rightarrow> image_data" where
  "new_image_data w h =
     \<lparr>width = w, height = h, pixels = resize 0 (unat (w * h * 4)) []\<rparr>"

section \<open>The colour table\<close>

definition fixed_colors :: "color list" where
  "fixed_colors =
     [\<lparr>color.r = 255, color.g = 109, color.b = 194, color.a = 255\<rparr>,
      \<lparr>color.r = 200, color.g = 122, color.b = 255, color.a = 255\<rparr>,
      \<lparr>color.r = 135, color.g = 60, color.b = 190, color.a = 255\<rparr>,
      \<lparr>color.r = 112, color.g = 31, color.b = 126, color.a = 255\<rparr>,
      \<lparr>color.r = 0, color.g = 82, color.b = 172, color.a = 255\<rparr>]"

text \<open>A value-initialised colour, and \<^verbatim>\<open>current = {245, 109, 194}\<close>.\<close>

definition zero_color :: color where
  "zero_color = \<lparr>color.r = 0, color.g = 0, color.b = 0, color.a = 0\<rparr>"

definition start_color :: color where
  "start_color = \<lparr>color.r = 245, color.g = 109, color.b = 194, color.a = 0\<rparr>"

text \<open>\<^verbatim>\<open>(c + 100) % 255\<close> on a byte promoted to \<^verbatim>\<open>int\<close>, stored back into a byte.\<close>

definition bump :: "8 word \<Rightarrow> 8 word" where
  "bump c = of_nat ((unat c + 100) mod 255)"

text \<open>The three \<^verbatim>\<open>if\<close>s of the loop body.\<close>

definition next_color :: "nat \<Rightarrow> color \<Rightarrow> color" where
  "next_color i current =
     (let c1 = (if i mod 3 = 0 then current\<lparr>color.r := bump (color.r current)\<rparr> else current);
          c2 = (if i mod 3 = 1 then c1\<lparr>color.g := bump (color.g c1)\<rparr> else c1)
      in (if i mod 3 = 2 then c2\<lparr>color.b := bump (color.b c2)\<rparr> else c2))"

function color_loop :: "nat \<Rightarrow> nat \<Rightarrow> color \<Rightarrow> color list \<Rightarrow> error + color list" where
  "color_loop n i current result =
     (if i < n then
        (if i < length result then
           (if i = INT_MAX then Inl SignedOverflow
            else color_loop n (i + 1) (next_color i current)
                   (result[i := next_color i current]))
         else Inl OutOfBounds)
      else Inr result)"
  by pat_completeness auto
termination
  by (relation "measure (\<lambda>(n, i, current, result). n - i)") auto

declare color_loop.simps [simp del]

definition set_colors :: "nat \<Rightarrow> error + color list" where
  "set_colors n = color_loop n 5 start_color (resize zero_color n fixed_colors)"

section \<open>The roots\<close>

text \<open>
  \<^verbatim>\<open>1if * t\<close> multiplies both parts of \<^verbatim>\<open>1if\<close>, that is \<open>(0, 1)\<close>, by the
  \<^verbatim>\<open>float\<close> \<open>t\<close>.
\<close>

definition root :: "'f arith \<Rightarrow> ('f cfloat \<Rightarrow> 'f cfloat) \<Rightarrow> nat \<Rightarrow> nat \<Rightarrow> 'f float2" where
  "root A cexp n i =
     (let t = div32 A (mul32 A (mul32 A (lit32 A 2 1) (pi32 A)) (nat32 A i)) (nat32 A n)
      in cexp (mul32 A (nat32 A 0) t, mul32 A (nat32 A 1) t))"

function root_loop ::
  "'f arith \<Rightarrow> ('f cfloat \<Rightarrow> 'f cfloat) \<Rightarrow> nat \<Rightarrow> nat \<Rightarrow> 'f float2 list \<Rightarrow> error + 'f float2 list"
where
  "root_loop A cexp n i result =
     (if i < n then
        (if i < length result then
           (if i = INT_MAX then Inl SignedOverflow
            else root_loop A cexp n (i + 1) (result[i := root A cexp n i]))
         else Inl OutOfBounds)
      else Inr result)"
  by pat_completeness auto
termination
  by (relation "measure (\<lambda>(A, cexp, n, i, result). n - i)") auto

declare root_loop.simps [simp del]

definition calculate_roots ::
  "'f arith \<Rightarrow> ('f cfloat \<Rightarrow> 'f cfloat) \<Rightarrow> nat \<Rightarrow> error + 'f float2 list"
where
  "calculate_roots A cexp n =
     root_loop A cexp n 0 (replicate n (nat32 A 0, nat32 A 0))"

section \<open>The kernel\<close>

text \<open>\<^verbatim>\<open>n - 1\<close> on a \<^verbatim>\<open>std::size_t\<close>.\<close>

definition size_pred :: "nat \<Rightarrow> nat" where
  "size_pred n = (n + 2 ^ 64 - 1) mod 2 ^ 64"

definition csub :: "'f arith \<Rightarrow> 'f cfloat \<Rightarrow> 'f cfloat \<Rightarrow> 'f cfloat" where
  "csub A x y = (sub32 A (fst x) (fst y), sub32 A (snd x) (snd y))"

definition function_n :: "'f arith \<Rightarrow> 'f lib \<Rightarrow> 'f cfloat \<Rightarrow> nat \<Rightarrow> 'f cfloat" where
  "function_n A L z n = csub A (cpow L z (nat32 A n)) (nat32 A 1, nat32 A 0)"

definition derivative :: "'f arith \<Rightarrow> 'f lib \<Rightarrow> 'f cfloat \<Rightarrow> nat \<Rightarrow> 'f cfloat" where
  "derivative A L z n = cmul L (nat32 A n, nat32 A 0) (cpow L z (nat32 A (size_pred n)))"

definition to_raylib :: "color \<Rightarrow> Color" where
  "to_raylib clr =
     \<lparr>Color.r = color.r clr, Color.g = color.g clr, Color.b = color.b clr, Color.a = 255\<rparr>"

definition max_iteration :: nat where
  "max_iteration = 42"

text \<open>\<^verbatim>\<open>constexpr auto tolerance = 0.000001\<close>, a \<^verbatim>\<open>double\<close>.\<close>

definition tolerance :: "'f arith \<Rightarrow> 'f" where
  "tolerance A = lit64 A 1 1000000"

text \<open>
  \<^verbatim>\<open>(-2.0*i)/max_iteration + 0.5\<close> in \<^verbatim>\<open>double\<close>, then converted to the \<^verbatim>\<open>float\<close>
  parameter of \<^verbatim>\<open>ColorBrightness\<close>.
\<close>

definition brightness_factor :: "'f arith \<Rightarrow> nat \<Rightarrow> 'f" where
  "brightness_factor A i =
     to_float A
       (add64 A (div64 A (mul64 A (lit64 A (- 2) 1) (nat64 A i)) (nat64 A max_iteration))
          (lit64 A 1 2))"

text \<open>
  The inner loop over the roots, from index \<open>i\<close> on: the first root that the
  new \<open>z\<close> is close to ends the whole function with a colour.
\<close>

fun scan_roots ::
  "'f arith \<Rightarrow> 'f lib \<Rightarrow> 'f cfloat \<Rightarrow> 'f float2 list \<Rightarrow> color list \<Rightarrow> nat \<Rightarrow> (error + Color) option"
where
  "scan_roots A L z [] colors i = None"
| "scan_roots A L z (rt # rts) colors i =
     (if lt A (cabs L (csub A z (fst rt, snd rt))) (tolerance A) then
        Some (if i < length colors
              then Inr (ColorBrightness L (to_raylib (colors ! i)) (brightness_factor A i))
              else Inl OutOfBounds)
      else scan_roots A L z rts colors (i + 1))"

text \<open>The Newton update \<^verbatim>\<open>z -= function(z, n) / deriv\<close>.\<close>

definition newton_update :: "'f arith \<Rightarrow> 'f lib \<Rightarrow> 'f cfloat \<Rightarrow> nat \<Rightarrow> 'f cfloat" where
  "newton_update A L z n = csub A z (cdiv L (function_n A L z n) (derivative A L z n))"

text \<open>
  The outer loop from iteration \<open>i\<close> on.  Beside the colour it returns the
  number of Newton updates that were executed; \<open>i\<close> of them were executed
  before iteration \<open>i\<close>.
\<close>

function newton_loop ::
  "'f arith \<Rightarrow> 'f lib \<Rightarrow> 'f float2 list \<Rightarrow> color list \<Rightarrow> nat \<Rightarrow> 'f cfloat \<Rightarrow> nat \<times> (error + Color)"
where
  "newton_loop A L roots colors i z =
     (if i < max_iteration then
        (if le A (cabs L (derivative A L z (length roots))) (tolerance A)
         then (i, Inr DARKGREEN)
         else
           (case scan_roots A L (newton_update A L z (length roots)) roots colors 0 of
              Some res \<Rightarrow> (i + 1, res)
            | None \<Rightarrow>
                newton_loop A L roots colors (i + 1) (newton_update A L z (length roots))))
      else (i, Inr DARKGREEN))"
  by pat_completeness auto
termination
  by (relation "measure (\<lambda>(A, L, roots, colors, i, z). max_iteration - i)") auto

declare newton_loop.simps [simp del]

definition calculate_single_pixel ::
  "'f arith \<Rightarrow> 'f lib \<Rightarrow> 'f cfloat \<Rightarrow> 'f float2 list \<Rightarrow> color list \<Rightarrow> error + Color"
where
  "calculate_single_pixel A L z roots colors = snd (newton_loop A L roots colors 0 z)"

definition newton_updates ::
  "'f arith \<Rightarrow> 'f lib \<Rightarrow> 'f cfloat \<Rightarrow> 'f float2 list \<Rightarrow> color list \<Rightarrow> nat"
where
  "newton_updates A L z roots colors = fst (newton_loop A L roots colors 0 z)"


section \<open>The raster\<close>

text \<open>
  The first lines of the loop body of \<^verbatim>\<open>calculate_pixels\<close>, which the spec calls
  \<^verbatim>\<open>pixel_to_complex\<close>.  In \<^verbatim>\<open>zx + zy*1if\<close> the product multiplies both parts
  of \<^verbatim>\<open>1if\<close> by \<open>zy\<close>, and the sum adds \<open>zx\<close> to the real part.
\<close>

definition pixel_to_complex ::
  "'f arith \<Rightarrow> 'f area \<Rightarrow> nat \<Rightarrow> nat \<Rightarrow> 32 word \<Rightarrow> 32 word \<Rightarrow> 'f cfloat"
where
  "pixel_to_complex A target_area x y w h =
     (let fraction_x = div32 A (nat32 A x) (nat32 A (unat w));
          range_x = sub32 A (upper_x target_area) (lower_x target_area);
          zx = add32 A (mul32 A fraction_x range_x) (lower_x target_area);
          fraction_y = div32 A (nat32 A y) (nat32 A (unat h));
          range_y = sub32 A (upper_y target_area) (lower_y target_area);
          zy = add32 A (mul32 A fraction_y range_y) (lower_y target_area)
      in (add32 A (mul32 A (nat32 A 0) zy) zx, mul32 A (nat32 A 1) zy))"

text \<open>An element of the pixel vector is written; outside the vector that is undefined.\<close>

definition put :: "8 word list \<Rightarrow> nat \<Rightarrow> 8 word \<Rightarrow> error + 8 word list" where
  "put buf i v = (if i < length buf then Inr (buf[i := v]) else Inl OutOfBounds)"

text \<open>\<^verbatim>\<open>(y*img_data.width+x) * 4 + k\<close> on \<^verbatim>\<open>std::size_t\<close>.\<close>

definition offset :: "32 word \<Rightarrow> nat \<Rightarrow> nat \<Rightarrow> nat \<Rightarrow> nat" where
  "offset w y x k = ((((y * unat w) mod 2 ^ 64 + x) mod 2 ^ 64 * 4) mod 2 ^ 64 + k) mod 2 ^ 64"

definition store_pixel :: "8 word list \<Rightarrow> 32 word \<Rightarrow> nat \<Rightarrow> nat \<Rightarrow> Color \<Rightarrow> error + 8 word list" where
  "store_pixel buf w y x pixel_color =
     (case put buf (offset w y x 0) (Color.r pixel_color) of Inl err \<Rightarrow> Inl err | Inr buf1 \<Rightarrow>
      case put buf1 (offset w y x 1) (Color.g pixel_color) of Inl err \<Rightarrow> Inl err | Inr buf2 \<Rightarrow>
      case put buf2 (offset w y x 2) (Color.b pixel_color) of Inl err \<Rightarrow> Inl err | Inr buf3 \<Rightarrow>
      put buf3 (offset w y x 3) (Color.a pixel_color))"

text \<open>The inner loop over \<open>x\<close> and the outer loop over \<open>y\<close>.\<close>

function row_loop ::
  "'f arith \<Rightarrow> 'f lib \<Rightarrow> 32 word \<Rightarrow> 32 word \<Rightarrow> 'f area \<Rightarrow> 'f float2 list \<Rightarrow> color list \<Rightarrow>
   nat \<Rightarrow> nat \<Rightarrow> 8 word list \<Rightarrow> error + 8 word list"
where
  "row_loop A L w h target_area roots colors y x buf =
     (if x < unat w then
        (case calculate_single_pixel A L (pixel_to_complex A target_area x y w h) roots colors of
           Inl err \<Rightarrow> Inl err
         | Inr pixel_color \<Rightarrow>
             (case store_pixel buf w y x pixel_color of
                Inl err \<Rightarrow> Inl err
              | Inr buf' \<Rightarrow> row_loop A L w h target_area roots colors y (x + 1) buf'))
      else Inr buf)"
  by pat_completeness auto
termination
  by (relation "measure (\<lambda>(A, L, w, h, target_area, roots, colors, y, x, buf). unat w - x)") auto

declare row_loop.simps [simp del]

function column_loop ::
  "'f arith \<Rightarrow> 'f lib \<Rightarrow> 32 word \<Rightarrow> 32 word \<Rightarrow> 'f area \<Rightarrow> 'f float2 list \<Rightarrow> color list \<Rightarrow>
   nat \<Rightarrow> 8 word list \<Rightarrow> error + 8 word list"
where
  "column_loop A L w h target_area roots colors y buf =
     (if y < unat h then
        (case row_loop A L w h target_area roots colors y 0 buf of
           Inl err \<Rightarrow> Inl err
         | Inr buf' \<Rightarrow> column_loop A L w h target_area roots colors (y + 1) buf')
      else Inr buf)"
  by pat_completeness auto
termination
  by (relation "measure (\<lambda>(A, L, w, h, target_area, roots, colors, y, buf). unat h - y)") auto

declare column_loop.simps [simp del]

definition calculate_pixels ::
  "'f arith \<Rightarrow> 'f lib \<Rightarrow> image_data \<Rightarrow> 'f area \<Rightarrow> 'f float2 list \<Rightarrow> color list \<Rightarrow> error + image_data"
where
  "calculate_pixels A L img_data target_area roots colors =
     (case column_loop A L (width img_data) (height img_data) target_area roots colors 0
             (pixels img_data) of
        Inl err \<Rightarrow> Inl err
      | Inr buf \<Rightarrow> Inr (img_data\<lparr>pixels := buf\<rparr>))"

section \<open>The viewport\<close>

text \<open>
  \<^verbatim>\<open>zoom\<close>: the ranges and the products with \<open>factor\<close> are \<^verbatim>\<open>float\<close>, the
  divisions by \<^verbatim>\<open>2.0\<close> and the sums with the centre are \<^verbatim>\<open>double\<close>, and the
  results are stored into the \<^verbatim>\<open>float\<close> members.
\<close>

definition zoom :: "'f arith \<Rightarrow> 'f area \<Rightarrow> 'f \<Rightarrow> 'f area" where
  "zoom A ar factor =
     (let x_range = sub32 A (upper_x ar) (lower_x ar);
          x_center = add64 A (lower_x ar) (div64 A x_range (lit64 A 2 1));
          ar1 = ar\<lparr>lower_x :=
                  to_float A (sub64 A x_center (div64 A (mul32 A x_range factor) (lit64 A 2 1)))\<rparr>;
          ar2 = ar1\<lparr>upper_x :=
                  to_float A (add64 A x_center (div64 A (mul32 A x_range factor) (lit64 A 2 1)))\<rparr>;
          y_range = sub32 A (upper_y ar2) (lower_y ar2);
          y_center = add64 A (lower_y ar2) (div64 A y_range (lit64 A 2 1));
          ar3 = ar2\<lparr>lower_y :=
                  to_float A (sub64 A y_center (div64 A (mul32 A y_range factor) (lit64 A 2 1)))\<rparr>
      in ar3\<lparr>upper_y :=
                  to_float A (add64 A y_center (div64 A (mul32 A y_range factor) (lit64 A 2 1)))\<rparr>)"

text \<open>
  The state of \<^verbatim>\<open>show_image_on_screen\<close> that the keys change: the area and the
  \<^verbatim>\<open>double\<close> \<^verbatim>\<open>movement_step\<close>.  One pass of the \<^verbatim>\<open>while\<close> loop looks at the six
  keys in the order of the source.
\<close>

record 'f view =
  target_area :: "'f area"
  movement_step :: 'f

datatype key = KEY_UP | KEY_DOWN | KEY_W | KEY_S | KEY_A | KEY_D

definition zoom_in_factor :: "'f arith \<Rightarrow> 'f" where
  "zoom_in_factor A = lit64 A 9 10"

definition zoom_out_factor :: "'f arith \<Rightarrow> 'f" where
  "zoom_out_factor A = lit64 A 11 10"

definition key_up :: "'f arith \<Rightarrow> 'f view \<Rightarrow> 'f view" where
  "key_up A v =
     \<lparr>target_area = zoom A (target_area v) (to_float A (zoom_in_factor A)),
      movement_step = mul64 A (movement_step v) (zoom_in_factor A)\<rparr>"

definition key_down :: "'f arith \<Rightarrow> 'f view \<Rightarrow> 'f view" where
  "key_down A v =
     \<lparr>target_area = zoom A (target_area v) (to_float A (zoom_out_factor A)),
      movement_step = mul64 A (movement_step v) (zoom_out_factor A)\<rparr>"

definition key_w :: "'f arith \<Rightarrow> 'f view \<Rightarrow> 'f view" where
  "key_w A v =
     v\<lparr>target_area := (target_area v)
        \<lparr>lower_y := to_float A (sub64 A (lower_y (target_area v)) (movement_step v)),
         upper_y := to_float A (sub64 A (upper_y (target_area v)) (movement_step v))\<rparr>\<rparr>"

definition key_s :: "'f arith \<Rightarrow> 'f view \<Rightarrow> 'f view" where
  "key_s A v =
     v\<lparr>target_area := (target_area v)
        \<lparr>lower_y := to_float A (add64 A (lower_y (target_area v)) (movement_step v)),
         upper_y := to_float A (add64 A (upper_y (target_area v)) (movement_step v))\<rparr>\<rparr>"

definition key_a :: "'f arith \<Rightarrow> 'f view \<Rightarrow> 'f view" where
  "key_a A v =
     v\<lparr>target_area := (target_area v)
        \<lparr>lower_x := to_float A (sub64 A (lower_x (target_area v)) (movement_step v)),
         upper_x := to_float A (sub64 A (upper_x (target_area v)) (movement_step v))\<rparr>\<rparr>"

definition key_d :: "'f arith \<Rightarrow> 'f view \<Rightarrow> 'f view" where
  "key_d A v =
     v\<lparr>target_area := (target_area v)
        \<lparr>lower_x := to_float A (add64 A (lower_x (target_area v)) (movement_step v)),
         upper_x := to_float A (add64 A (upper_x (target_area v)) (movement_step v))\<rparr>\<rparr>"

definition frame :: "'f arith \<Rightarrow> (key \<Rightarrow> bool) \<Rightarrow> 'f view \<Rightarrow> 'f view" where
  "frame A is_key_down v =
     (let v1 = (if is_key_down KEY_UP then key_up A v else v);
          v2 = (if is_key_down KEY_DOWN then key_down A v1 else v1);
          v3 = (if is_key_down KEY_W then key_w A v2 else v2);
          v4 = (if is_key_down KEY_S then key_s A v3 else v3);
          v5 = (if is_key_down KEY_A then key_a A v4 else v4)
      in (if is_key_down KEY_D then key_d A v5 else v5))"

text \<open>\<^verbatim>\<open>ispc::area target_area{-2.0f,2.0f,-2.0f,2.0f}\<close> and \<^verbatim>\<open>movement_step = 0.1\<close>.\<close>

definition initial_view :: "'f arith \<Rightarrow> 'f view" where
  "initial_view A =
     \<lparr>target_area =
        \<lparr>lower_x = lit32 A (- 2) 1, upper_x = lit32 A 2 1,
         lower_y = lit32 A (- 2) 1, upper_y = lit32 A 2 1\<rparr>,
      movement_step = lit64 A 1 10\<rparr>"

text \<open>The views the loop can reach, whatever keys are down in each pass.\<close>

inductive reachable :: "'f arith \<Rightarrow> 'f view \<Rightarrow> bool" for A :: "'f arith" where
  start: "reachable A (initial_view A)"
| pass: "reachable A v \<Longrightarrow> reachable A (frame A is_key_down v)"

definition positive_extent :: "'f arith \<Rightarrow> 'f area \<Rightarrow> bool" where
  "positive_extent A ar = (lt A (lower_x ar) (upper_x ar) \<and> lt A (lower_y ar) (upper_y ar))"


section \<open>A library instance for examples\<close>

text \<open>
  The examples below run the kernel on the machine arithmetic with the
  following instance of the library: the product by the textbook formula, the
  quotient by the scaled formula of libgcc, powers with a natural exponent by
  repeated products, the magnitude as the correctly rounded square root of the
  sum of the squares, and \<^verbatim>\<open>ColorBrightness\<close> after \<^verbatim>\<open>rtextures.c\<close> of raylib.
  No theorem about the program depends on it.
\<close>

fun fp_abs :: "fp \<Rightarrow> fp" where
  "fp_abs (Fin m e) = Fin \<bar>m\<bar> e"
| "fp_abs NaN = NaN"
| "fp_abs v = PInf"

definition sample_mul :: "fp cfloat \<Rightarrow> fp cfloat \<Rightarrow> fp cfloat" where
  "sample_mul x y =
     (fp_sub round32 (fp_mul round32 (fst x) (fst y)) (fp_mul round32 (snd x) (snd y)),
      fp_add round32 (fp_mul round32 (fst x) (snd y)) (fp_mul round32 (snd x) (fst y)))"

definition sample_div :: "fp cfloat \<Rightarrow> fp cfloat \<Rightarrow> fp cfloat" where
  "sample_div x y =
     (if fp_less (fp_abs (fst y)) (fp_abs (snd y)) then
        (let ratio = fp_div quot32 (fst y) (snd y);
             denom = fp_add round32 (fp_mul round32 (fst y) ratio) (snd y)
         in (fp_div quot32 (fp_add round32 (fp_mul round32 (fst x) ratio) (snd x)) denom,
             fp_div quot32 (fp_sub round32 (fp_mul round32 (snd x) ratio) (fst x)) denom))
      else
        (let ratio = fp_div quot32 (snd y) (fst y);
             denom = fp_add round32 (fp_mul round32 (snd y) ratio) (fst y)
         in (fp_div quot32 (fp_add round32 (fp_mul round32 (snd x) ratio) (fst x)) denom,
             fp_div quot32 (fp_sub round32 (snd x) (fp_mul round32 (fst x) ratio)) denom)))"

fun sample_power :: "fp cfloat \<Rightarrow> nat \<Rightarrow> fp cfloat" where
  "sample_power z 0 = (Fin 1 0, Fin 0 0)"
| "sample_power z (Suc k) = (if k = 0 then z else sample_mul z (sample_power z k))"

definition sample_pow :: "fp cfloat \<Rightarrow> fp \<Rightarrow> fp cfloat" where
  "sample_pow z y =
     (case y of
        Fin m e \<Rightarrow> (if 0 \<le> m \<and> 0 \<le> e then sample_power z (nat (m * 2 ^ nat e)) else (NaN, NaN))
      | _ \<Rightarrow> (NaN, NaN))"

definition isqrt_step :: "int \<Rightarrow> int \<Rightarrow> int" where
  "isqrt_step k half = (if (2 * half + 1) * (2 * half + 1) \<le> k then 2 * half + 1 else 2 * half)"

function isqrt :: "int \<Rightarrow> int" where
  "isqrt k = (if k < 2 then (if k < 0 then 0 else k) else isqrt_step k (isqrt (k div 4)))"
  by pat_completeness auto
termination
  by (relation "measure nat") auto

definition with_sticky :: "int \<Rightarrow> int \<Rightarrow> int" where
  "with_sticky k s = 2 * s + (if s * s = k then 0 else 1)"

definition sqrt_sticky :: "int \<Rightarrow> int" where
  "sqrt_sticky k = with_sticky k (isqrt k)"

fun sample_abs :: "fp cfloat \<Rightarrow> fp" where
  "sample_abs (Fin m1 e1, Fin m2 e2) =
     round32
       (sqrt_sticky ((m1 * m1 * 4 ^ nat (e1 - min e1 e2) + m2 * m2 * 4 ^ nat (e2 - min e1 e2)) * 4 ^ 26))
       (min e1 e2 - 27)"
| "sample_abs (NaN, v) = NaN"
| "sample_abs (v, NaN) = NaN"
| "sample_abs (u, v) = PInf"

text \<open>The conversion of a \<^verbatim>\<open>float\<close> between 0 and 255 to \<^verbatim>\<open>unsigned char\<close>.\<close>

fun to_uchar :: "fp \<Rightarrow> 8 word" where
  "to_uchar (Fin m e) = (if 0 \<le> e then of_int (m * 2 ^ nat e) else of_int (m div 2 ^ nat (- e)))"
| "to_uchar v = 0"

definition brighten :: "fp \<Rightarrow> 8 word \<Rightarrow> 8 word" where
  "brighten factor c =
     (if fp_less factor (Fin 0 0) then
        to_uchar (fp_mul round32 (round32 (uint c) 0) (fp_add round32 (Fin 1 0) factor))
      else
        to_uchar (fp_add round32
                    (fp_mul round32 (fp_sub round32 (Fin 255 0) (round32 (uint c) 0)) factor)
                    (round32 (uint c) 0)))"

definition clamp_factor :: "fp \<Rightarrow> fp" where
  "clamp_factor factor =
     (if fp_less (Fin 1 0) factor then Fin 1 0
      else if fp_less factor (Fin (- 1) 0) then Fin (- 1) 0 else factor)"

definition sample_brightness :: "Color \<Rightarrow> fp \<Rightarrow> Color" where
  "sample_brightness c factor =
     c\<lparr>Color.r := brighten (clamp_factor factor) (Color.r c),
       Color.g := brighten (clamp_factor factor) (Color.g c),
       Color.b := brighten (clamp_factor factor) (Color.b c)\<rparr>"

definition sample_lib :: "fp lib" where
  "sample_lib =
     \<lparr>cpow = sample_pow, cmul = sample_mul, cdiv = sample_div, cabs = sample_abs,
      ColorBrightness = sample_brightness\<rparr>"

section \<open>Properties of the floating-point values\<close>

lemma dyadic_shift:
  assumes "k \<le> e"
  shows "dyadic m e = of_int (m * 2 ^ nat (e - k)) * 2 powi k"
proof -
  have "(2::real) powi e = 2 powi (int (nat (e - k)) + k)" using assms by simp
  also have "\<dots> = 2 ^ nat (e - k) * 2 powi k"
    by (simp only: power_int_add[of "2::real", simplified] power_int_of_nat)
  finally show ?thesis by (simp add: dyadic_def)
qed

lemma fp_eq_Fin: "fp_eq (Fin m1 e1) (Fin m2 e2) \<longleftrightarrow> dyadic m1 e1 = dyadic m2 e2"
proof -
  let ?k = "min e1 e2"
  have pos: "(2::real) powi ?k > 0" by simp
  have "dyadic m1 e1 = dyadic m2 e2 \<longleftrightarrow>
        (of_int (m1 * 2 ^ nat (e1 - ?k)) :: real) * 2 powi ?k = of_int (m2 * 2 ^ nat (e2 - ?k)) * 2 powi ?k"
    using dyadic_shift[of ?k e1 m1] dyadic_shift[of ?k e2 m2] by simp
  also have "\<dots> \<longleftrightarrow> (of_int (m1 * 2 ^ nat (e1 - ?k)) :: real) = of_int (m2 * 2 ^ nat (e2 - ?k))"
    using pos by simp
  also have "\<dots> \<longleftrightarrow> m1 * 2 ^ nat (e1 - ?k) = m2 * 2 ^ nat (e2 - ?k)"
    by (simp only: of_int_eq_iff)
  finally show ?thesis by simp
qed

lemma fp_less_Fin: "fp_less (Fin m1 e1) (Fin m2 e2) \<longleftrightarrow> dyadic m1 e1 < dyadic m2 e2"
proof -
  let ?k = "min e1 e2"
  have pos: "(2::real) powi ?k > 0" by simp
  have "dyadic m1 e1 < dyadic m2 e2 \<longleftrightarrow>
        (of_int (m1 * 2 ^ nat (e1 - ?k)) :: real) * 2 powi ?k < of_int (m2 * 2 ^ nat (e2 - ?k)) * 2 powi ?k"
    using dyadic_shift[of ?k e1 m1] dyadic_shift[of ?k e2 m2] by simp
  also have "\<dots> \<longleftrightarrow> (of_int (m1 * 2 ^ nat (e1 - ?k)) :: real) < of_int (m2 * 2 ^ nat (e2 - ?k))"
    using pos by (simp only: mult_less_cancel_right_pos)
  also have "\<dots> \<longleftrightarrow> m1 * 2 ^ nat (e1 - ?k) < m2 * 2 ^ nat (e2 - ?k)"
    by (simp only: of_int_less_iff)
  finally show ?thesis by simp
qed

lemma fp_le_Fin: "fp_le (Fin m1 e1) (Fin m2 e2) \<longleftrightarrow> dyadic m1 e1 \<le> dyadic m2 e2"
  unfolding fp_le_def fp_eq_Fin fp_less_Fin by auto







lemma bitlen_numeral: "bitlen (numeral k) = num_bits k"
proof (induction k)
  case One
  show ?case by (subst compute_bitlen) simp
next
  case (Bit0 k)
  have "bitlen (numeral (num.Bit0 k)) = bitlen (numeral (num.Bit0 k) div 2) + 1"
    by (subst compute_bitlen) simp
  also have "(numeral (num.Bit0 k) :: int) div 2 = numeral k" by simp
  finally show ?case using Bit0 by simp
next
  case (Bit1 k)
  have "bitlen (numeral (num.Bit1 k)) = bitlen (numeral (num.Bit1 k) div 2) + 1"
    by (subst compute_bitlen) simp
  also have "(numeral (num.Bit1 k) :: int) div 2 = numeral k" by simp
  finally show ?case using Bit1 by simp
qed

lemma bitlen_one: "bitlen 1 = 1"
  by (subst compute_bitlen) simp

lemmas fp_eval =
  round32_def round64_def quot32_def quot64_def rnd_def rnd_at_def rnd_half_even_def
  fin_or_inf_def rnd_quot_def sticky_def fp_sub_def fp_le_def bitlen_numeral bitlen_one

lemmas ieee_eval = ieee_def fp_eval

lemma tolerance_ieee: "tolerance ieee = Fin 4722366482869645 (- 72)"
  by (simp add: tolerance_def ieee_eval)


lemma ieee_ops:
  "add32 ieee = fp_add round32" "sub32 ieee = fp_sub round32"
  "mul32 ieee = fp_mul round32" "div32 ieee = fp_div quot32"
  "add64 ieee = fp_add round64" "sub64 ieee = fp_sub round64"
  "mul64 ieee = fp_mul round64" "div64 ieee = fp_div quot64"
  "to_float ieee = fp_cast round32"
  "nat32 ieee k = round32 (int k) 0" "nat64 ieee k = round64 (int k) 0"
  "lit32 ieee n d = quot32 n d 0" "lit64 ieee n d = quot64 n d 0"
  "pi32 ieee = Fin 13176795 (- 22)"
  "lt ieee = fp_less" "le ieee = fp_le" "eq ieee = fp_eq"
  by (simp_all add: ieee_def)


section \<open>Properties of the colour table\<close>


lemma color_loop_spec:
  assumes "length result = n" "n \<le> INT_MAX" "i \<le> n"
  shows "\<exists>cs. color_loop n i current result = Inr cs \<and> length cs = n \<and>
           (\<forall>j<i. cs ! j = result ! j) \<and>
           (i < n \<longrightarrow> cs ! i = next_color i current) \<and>
           (\<forall>j. i \<le> j \<and> j + 1 < n \<longrightarrow> cs ! (j + 1) = next_color (j + 1) (cs ! j))"
  using assms
proof (induction n i current result rule: color_loop.induct)
  case (1 n i current result)
  show ?case
  proof (cases "i < n")
    case False
    with "1.prems" show ?thesis by (subst color_loop.simps) auto
  next
    case True
    let ?c = "next_color i current"
    let ?r = "result[i := ?c]"
    from True "1.prems" have ne: "i \<noteq> INT_MAX" and il: "i < length result" by auto
    have "\<exists>cs. color_loop n (i + 1) ?c ?r = Inr cs \<and> length cs = n \<and>
           (\<forall>j<i + 1. cs ! j = ?r ! j) \<and>
           (i + 1 < n \<longrightarrow> cs ! (i + 1) = next_color (i + 1) ?c) \<and>
           (\<forall>j. i + 1 \<le> j \<and> j + 1 < n \<longrightarrow> cs ! (j + 1) = next_color (j + 1) (cs ! j))"
      using "1.IH"[OF True il ne] "1.prems" True by simp
    then obtain cs where cs: "color_loop n (i + 1) ?c ?r = Inr cs" "length cs = n"
      "\<forall>j<i + 1. cs ! j = ?r ! j"
      "i + 1 < n \<longrightarrow> cs ! (i + 1) = next_color (i + 1) ?c"
      "\<forall>j. i + 1 \<le> j \<and> j + 1 < n \<longrightarrow> cs ! (j + 1) = next_color (j + 1) (cs ! j)"
      by blast
    have eq: "color_loop n i current result = Inr cs"
      using True il ne cs(1) by (subst color_loop.simps) simp
    have at_i: "cs ! i = ?c" using cs(3) il by simp
    have before: "\<forall>j<i. cs ! j = result ! j" using cs(3) by simp
    have chain: "\<forall>j. i \<le> j \<and> j + 1 < n \<longrightarrow> cs ! (j + 1) = next_color (j + 1) (cs ! j)"
    proof (intro allI impI)
      fix j assume j: "i \<le> j \<and> j + 1 < n"
      show "cs ! (j + 1) = next_color (j + 1) (cs ! j)"
      proof (cases "j = i")
        case True with j cs(4) at_i show ?thesis by simp
      next
        case False with j cs(5) show ?thesis by simp
      qed
    qed
    from eq cs(2) before at_i chain show ?thesis by blast
  qed
qed

lemma resize_length: "length (resize fill n xs) = n"
  by (simp add: resize_def)

lemma set_colors_small:
  assumes "n \<le> 5"
  shows "set_colors n = Inr (take n fixed_colors)"
proof -
  have "length fixed_colors = 5" by (simp add: fixed_colors_def)
  with assms have "resize zero_color n fixed_colors = take n fixed_colors"
    by (simp add: resize_def)
  with assms show ?thesis
    unfolding set_colors_def by (subst color_loop.simps) simp
qed

lemma set_colors_large:
  assumes "5 \<le> n" "n \<le> INT_MAX"
  shows "\<exists>cs. set_colors n = Inr cs \<and> length cs = n \<and> take 5 cs = fixed_colors \<and>
           (5 < n \<longrightarrow> cs ! 5 = next_color 5 start_color) \<and>
           (\<forall>j. 5 \<le> j \<and> j + 1 < n \<longrightarrow> cs ! (j + 1) = next_color (j + 1) (cs ! j))"
proof -
  let ?r = "resize zero_color n fixed_colors"
  have len: "length fixed_colors = 5" by (simp add: fixed_colors_def)
  obtain cs where cs: "color_loop n 5 start_color ?r = Inr cs" "length cs = n"
      "\<forall>j<5. cs ! j = ?r ! j" "5 < n \<longrightarrow> cs ! 5 = next_color 5 start_color"
      "\<forall>j. 5 \<le> j \<and> j + 1 < n \<longrightarrow> cs ! (j + 1) = next_color (j + 1) (cs ! j)"
    using color_loop_spec[of ?r n 5 start_color] resize_length[of zero_color n fixed_colors] assms
    by blast
  have "take 5 cs = fixed_colors"
  proof (rule nth_equalityI)
    show "length (take 5 cs) = length fixed_colors" using cs(2) assms len by simp
  next
    fix j assume "j < length (take 5 cs)"
    then have j: "j < 5" by simp
    then have "cs ! j = ?r ! j" using cs(3) by simp
    also have "\<dots> = fixed_colors ! j" using j len assms by (simp add: resize_def nth_append)
    finally show "take 5 cs ! j = fixed_colors ! j" using j by simp
  qed
  with cs show ?thesis unfolding set_colors_def by blast
qed

lemma next_color_cases:
  "next_color i c =
     (if i mod 3 = 0 then c\<lparr>color.r := of_nat ((unat (color.r c) + 100) mod 255)\<rparr>
      else if i mod 3 = 1 then c\<lparr>color.g := of_nat ((unat (color.g c) + 100) mod 255)\<rparr>
      else c\<lparr>color.b := of_nat ((unat (color.b c) + 100) mod 255)\<rparr>)"
proof -
  have "i mod 3 = 0 \<or> i mod 3 = 1 \<or> i mod 3 = 2" by arith
  then show ?thesis by (auto simp: next_color_def bump_def Let_def)
qed

text \<open>
  Claim C6.  For every \<open>n\<close> from 1 up to the largest \<^verbatim>\<open>int\<close> (\<open>n\<close> is the \<^verbatim>\<open>int\<close>
  that \<^verbatim>\<open>main\<close> read), \<^verbatim>\<open>set_colors\<close> returns exactly \<open>n\<close> colours.  For \<open>n \<le> 5\<close>
  they are the fixed table cut to \<open>n\<close> entries.  For \<open>n > 5\<close> the first five are
  the fixed table, entry 5 is the step of index 5 from the start colour, and every
  later entry is the step of its index from the entry before it: the running
  colour is carried forward.  A step adds 100 modulo 255 to exactly one channel,
  red, green or blue as \<open>i mod 3\<close> is 0, 1 or 2.
\<close>

theorem set_colors_table:
  assumes "1 \<le> n" "n \<le> INT_MAX"
  shows "\<exists>cs. set_colors n = Inr cs \<and> length cs = n \<and>
           (n \<le> 5 \<longrightarrow> cs = take n fixed_colors) \<and>
           (5 < n \<longrightarrow> take 5 cs = fixed_colors \<and> cs ! 5 = next_color 5 start_color) \<and>
           (\<forall>i. 5 \<le> i \<and> i + 1 < n \<longrightarrow> cs ! (i + 1) = next_color (i + 1) (cs ! i)) \<and>
           (\<forall>i c. next_color i c =
              (if i mod 3 = 0 then c\<lparr>color.r := of_nat ((unat (color.r c) + 100) mod 255)\<rparr>
               else if i mod 3 = 1 then c\<lparr>color.g := of_nat ((unat (color.g c) + 100) mod 255)\<rparr>
               else c\<lparr>color.b := of_nat ((unat (color.b c) + 100) mod 255)\<rparr>))"
proof (cases "n \<le> 5")
  case True
  have "length fixed_colors = 5" by (simp add: fixed_colors_def)
  with True show ?thesis
    using set_colors_small[OF True] next_color_cases by auto
next
  case False
  then have "5 \<le> n" by simp
  from set_colors_large[OF this assms(2)] False show ?thesis
    using next_color_cases by auto
qed


theorem set_colors_table_witness:
  "(1::nat) \<le> 7 \<and> 7 \<le> INT_MAX \<and>
   (\<exists>cs. set_colors 7 = Inr cs \<and> length cs = 7 \<and> take 5 cs = fixed_colors \<and>
      cs ! 5 = \<lparr>color.r = 245, color.g = 109, color.b = 39, color.a = 0\<rparr> \<and>
      cs ! 6 = \<lparr>color.r = 90, color.g = 109, color.b = 39, color.a = 0\<rparr>)"
proof -
  have n: "(1::nat) \<le> 7" "7 \<le> INT_MAX" by (simp_all add: INT_MAX_def)
  from set_colors_table[OF n] obtain cs where cs: "set_colors 7 = Inr cs" "length cs = 7"
    "take 5 cs = fixed_colors" "cs ! 5 = next_color 5 start_color"
    "cs ! (5 + 1) = next_color (5 + 1) (cs ! 5)"
    by auto
  have c5: "cs ! 5 = \<lparr>color.r = 245, color.g = 109, color.b = 39, color.a = 0\<rparr>"
    using cs(4) by (simp add: next_color_def start_color_def bump_def)
  have "cs ! 6 = \<lparr>color.r = 90, color.g = 109, color.b = 39, color.a = 0\<rparr>"
    using cs(5) c5 by (simp add: next_color_def bump_def)
  with n cs c5 show ?thesis by blast
qed


section \<open>Properties of the kernel\<close>


lemma scan_roots_none:
  assumes "\<forall>j<length rts. \<not> lt A (cabs L (csub A z (rts ! j))) (tolerance A)"
  shows "scan_roots A L z rts colors i = None"
  using assms
proof (induction rts arbitrary: i)
  case Nil
  then show ?case by simp
next
  case (Cons rt rts)
  from Cons.prems have "\<not> lt A (cabs L (csub A z rt)) (tolerance A)" by auto
  moreover have "\<forall>j<length rts. \<not> lt A (cabs L (csub A z (rts ! j))) (tolerance A)"
    using Cons.prems by auto
  ultimately show ?case using Cons.IH by simp
qed

lemma newton_loop_stop:
  assumes "i < max_iteration" "le A (cabs L (derivative A L z (length roots))) (tolerance A)"
  shows "newton_loop A L roots colors i z = (i, Inr DARKGREEN)"
  using assms by (subst newton_loop.simps) simp


lemma newton_loop_next:
  assumes "i < max_iteration" "\<not> le A (cabs L (derivative A L z (length roots))) (tolerance A)"
    "scan_roots A L (newton_update A L z (length roots)) roots colors 0 = None"
  shows "newton_loop A L roots colors i z =
           newton_loop A L roots colors (i + 1) (newton_update A L z (length roots))"
  using assms by (subst newton_loop.simps) simp

lemma newton_loop_end:
  assumes "\<not> i < max_iteration"
  shows "newton_loop A L roots colors i z = (i, Inr DARKGREEN)"
  using assms by (subst newton_loop.simps) simp


text \<open>
  Claim C4.  When the magnitude of the derivative at the starting value \<open>z0\<close> is
  at most the tolerance, the kernel executes no Newton update and returns the
  fixed dark green at once.  This holds in every arithmetic and for every
  library; \<open>z0 = 0\<close> with two roots is the example of the witness.
\<close>

theorem kernel_small_derivative:
  assumes "le A (cabs L (derivative A L z0 (length roots))) (tolerance A)"
  shows "calculate_single_pixel A L z0 roots colors = Inr DARKGREEN \<and>
         newton_updates A L z0 roots colors = 0"
  using newton_loop_stop[OF _ assms, of 0 colors]
  by (simp add: calculate_single_pixel_def newton_updates_def max_iteration_def)


lemma sample_ops:
  "cpow sample_lib = sample_pow" "cmul sample_lib = sample_mul" "cdiv sample_lib = sample_div"
  "cabs sample_lib = sample_abs" "ColorBrightness sample_lib = sample_brightness"
  by (simp_all add: sample_lib_def)


lemmas sample_eval =
  sample_ops sample_pow_def sample_mul_def sample_div_def sample_brightness_def
  brighten_def clamp_factor_def sqrt_sticky_def with_sticky_def isqrt_step_def

lemmas kernel_eval =
  derivative_def function_n_def newton_update_def csub_def size_pred_def tolerance_ieee
  brightness_factor_def max_iteration_def to_raylib_def ieee_ops fp_eval

lemma d0: "cabs sample_lib (derivative ieee sample_lib (Fin 0 0, Fin 0 0) 2) = Fin 0 (-27)"
  by (simp add: kernel_eval sample_eval)

theorem kernel_small_derivative_witness:
  "le ieee (cabs sample_lib (derivative ieee sample_lib (Fin 0 0, Fin 0 0)
       (length [(Fin 1 0, Fin 0 0), (Fin (- 1) 0, Fin 0 0)]))) (tolerance ieee) \<and>
   calculate_single_pixel ieee sample_lib (Fin 0 0, Fin 0 0)
     [(Fin 1 0, Fin 0 0), (Fin (- 1) 0, Fin 0 0)] fixed_colors = Inr DARKGREEN \<and>
   newton_updates ieee sample_lib (Fin 0 0, Fin 0 0)
     [(Fin 1 0, Fin 0 0), (Fin (- 1) 0, Fin 0 0)] fixed_colors = 0"
proof -
  have len: "length [(Fin 1 0, Fin 0 0), (Fin (- 1) 0, Fin (0::int) (0::int))] = 2" by simp
  have h: "le ieee (cabs sample_lib (derivative ieee sample_lib (Fin 0 0, Fin 0 0)
       (length [(Fin 1 0, Fin 0 0), (Fin (- 1) 0, Fin 0 0)]))) (tolerance ieee)"
    unfolding len d0 by (simp add: ieee_ops tolerance_ieee fp_le_def)
  from kernel_small_derivative[OF h] h show ?thesis by blast
qed







end
